theory Spec2Isabelle
  imports Main
begin

section \<open>Query utilities (rest-template.util.ts)\<close>

text \<open>
  Strings are byte lists (UTF-8). A JavaScript object that is only enumerated is given by
  its entries in enumeration order, as \<^verbatim>\<open>Object.entries\<close> lists them: an
  association list. An optional parameter or field is an \<open>option\<close>, \<open>None\<close>
  standing for \<^verbatim>\<open>undefined\<close>.
\<close>

text \<open>
  \<^verbatim>\<open>QueryValue = string | number | boolean\<close>. The type \<open>'n\<close> is the type of
  numbers; how \<^verbatim>\<open>String(v)\<close> prints a number is a parameter of the model.
\<close>

datatype 'n QueryValue = QString string | QNumber 'n | QBoolean bool

fun String_js :: "('n \<Rightarrow> string) \<Rightarrow> 'n QueryValue \<Rightarrow> string" where
  "String_js num (QString s) = s"
| "String_js num (QNumber n) = num n"
| "String_js num (QBoolean b) = (if b then ''true'' else ''false'')"

text \<open>
  \<^verbatim>\<open>URLSearchParams\<close> is the platform's: \<^verbatim>\<open>append\<close> adds a pair at the end
  of its list, \<^verbatim>\<open>toString\<close> is the application/x-www-form-urlencoded serializer. A
  byte is kept when it is an ASCII letter or digit or one of \<^verbatim>\<open>* - . _\<close>, a space
  becomes \<^verbatim>\<open>+\<close>, and every other byte becomes \<^verbatim>\<open>%\<close> and two upper-case
  hexadecimal digits.
\<close>

definition form_safe :: "char \<Rightarrow> bool" where
  "form_safe c \<longleftrightarrow>
     c \<in> set ''abcdefghijklmnopqrstuvwxyzABCDEFGHIJKLMNOPQRSTUVWXYZ0123456789*-._''"

definition hex_digit :: "nat \<Rightarrow> char" where
  "hex_digit n = ''0123456789ABCDEF'' ! (n mod 16)"

definition form_encode_byte :: "char \<Rightarrow> string" where
  "form_encode_byte c =
     (if c = CHR '' '' then ''+''
      else if form_safe c then [c]
      else [CHR ''%'', hex_digit (of_char c div 16), hex_digit (of_char c)])"

definition form_encode :: "string \<Rightarrow> string" where
  "form_encode s = concat (map form_encode_byte s)"

type_synonym URLSearchParams = "(string \<times> string) list"

definition usp_append :: "URLSearchParams \<Rightarrow> string \<Rightarrow> string \<Rightarrow> URLSearchParams" where
  "usp_append usp k v = usp @ [(k, v)]"

fun usp_toString :: "URLSearchParams \<Rightarrow> string" where
  "usp_toString [] = []"
| "usp_toString [(k, v)] = form_encode k @ ''='' @ form_encode v"
| "usp_toString ((k, v) # rest) =
     form_encode k @ ''='' @ form_encode v @ ''&'' @ usp_toString rest"

text \<open>
  \<^verbatim>\<open>buildUrl(url, params)\<close>: \<open>params\<close> is \<open>None\<close> when the argument is
  absent, and otherwise the entries of the object.
\<close>

definition buildUrl ::
  "('n \<Rightarrow> string) \<Rightarrow> string \<Rightarrow> (string \<times> 'n QueryValue) list option \<Rightarrow> string" where
  "buildUrl num url params =
     (case params of
        None \<Rightarrow> url
      | Some entries \<Rightarrow>
          if length entries = 0 then url
          else
            let hasQuery = (CHR ''?'' \<in> set url);
                usp = fold (\<lambda>(k, v) u. usp_append u k (String_js num v)) entries []
            in url @ (if hasQuery then ''&'' else ''?'') @ usp_toString usp)"

section \<open>Data model (abs-rest-template.service.ts)\<close>

text \<open>
  An optional field is an \<open>option\<close>; \<open>options?.f\<close> on an optional object is
  \<open>Option.bind options f\<close>, and \<open>x ?? d\<close> is \<open>coalesce x d\<close>. A header object is
  a map from names to string values, so that the spread \<^verbatim>\<open>{...a, ...b}\<close> is
  \<open>a ++ b\<close>. Field names carry the name of their interface as a prefix, since
  several interfaces share \<^verbatim>\<open>headers\<close>, \<^verbatim>\<open>params\<close>, \<^verbatim>\<open>data\<close>
  and \<^verbatim>\<open>message\<close>.
\<close>

definition coalesce :: "'a option \<Rightarrow> 'a \<Rightarrow> 'a" where
  "coalesce x d = (case x of None \<Rightarrow> d | Some v \<Rightarrow> v)"

type_synonym RawAxiosRequestHeaders = "string \<rightharpoonup> string"

datatype ResponseMode = ResponseMode_data | ResponseMode_full

record RequestContext =
  ctx_token :: "string option"
  ctx_scopes :: "string list option"
  ctx_requestId :: "string option"

record 'q RestRequestOption =
  opt_params :: "'q option"
  opt_headers :: "RawAxiosRequestHeaders option"
  opt_timeoutMs :: "int option"
  opt_context :: "RequestContext option"
  opt_responseMode :: "ResponseMode option"

text \<open>
  \<^verbatim>\<open>AxiosRequestConfig\<close>: the six keys the template reads or writes, and
  \<open>cfg_rest\<close> for every other key of the object, by name.
\<close>

record ('q, 'b, 'v) AxiosRequestConfig =
  cfg_headers :: "RawAxiosRequestHeaders option"
  cfg_params :: "'q option"
  cfg_timeout :: "int option"
  cfg_method :: "string option"
  cfg_url :: "string option"
  cfg_data :: "'b option"
  cfg_rest :: "string \<rightharpoonup> 'v"

record 't AxiosResponse =
  resp_status :: int
  resp_headers :: RawAxiosRequestHeaders
  resp_data :: 't

text \<open>
  A thrown value is any JavaScript value: the parameter of a \<^verbatim>\<open>catch\<close> block is
  \<^verbatim>\<open>unknown\<close>, and the cast \<^verbatim>\<open>error as AxiosError\<close> is erased at run time. It is
  either \<^verbatim>\<open>undefined\<close> or \<^verbatim>\<open>null\<close> (\<open>Nullish\<close>), on which reading a property
  raises a \<^verbatim>\<open>TypeError\<close>, or any other value, which the code reads as an object with
  an optional \<^verbatim>\<open>message\<close> and an optional \<^verbatim>\<open>response\<close>; the response is read
  with \<^verbatim>\<open>?.\<close>, as an object with an optional \<^verbatim>\<open>status\<close> and an optional
  \<^verbatim>\<open>data\<close>. What a call raises is a \<^verbatim>\<open>TypeError\<close> of the run time or a value
  thrown by the code.
\<close>

record 'u ErrorResponse =
  err_status :: "int option"
  err_data :: "'u option"

record 'u AxiosError =
  err_message :: "string option"
  err_response :: "'u ErrorResponse option"

datatype 'u Thrown = Nullish | Obj "'u AxiosError"

datatype 'x Raised = TypeError | Threw 'x

section \<open>The abstract template (abs-rest-template.service.ts)\<close>

text \<open>
  The three abstract methods and the transport handle \<^verbatim>\<open>this.http.axiosRef\<close> are
  the fields of a record. \<open>'w\<close> is the state of everything outside the template (a token
  cache, the upstream server): the auth hook and the transport take it and return it
  updated, with \<open>Inl\<close> for a thrown value (a rejected promise), which may be any value.
  \<^verbatim>\<open>getDefaultHeaders\<close> is documented to return an immutable header object, the same
  on every call: it is a value. \<^verbatim>\<open>mapAndThrowError\<close> has return type
  \<^verbatim>\<open>never\<close>: a call has no normal return, so the hook is the function from the
  captured value to what the call raises.
\<close>

record ('q, 'b, 'v, 't, 'u, 'x, 'w) AbstractRestTemplate =
  getDefaultHeaders :: RawAxiosRequestHeaders
  applyAuth ::
    "('q, 'b, 'v) AxiosRequestConfig \<Rightarrow> RequestContext option \<Rightarrow> 'w \<Rightarrow>
       ('u Thrown + ('q, 'b, 'v) AxiosRequestConfig) \<times> 'w"
  axiosRef_request ::
    "('q, 'b, 'v) AxiosRequestConfig \<Rightarrow> 'w \<Rightarrow> ('u Thrown + 't AxiosResponse) \<times> 'w"
  mapAndThrowError :: "'u Thrown \<Rightarrow> 'x"

definition buildBaseConfig ::
  "RawAxiosRequestHeaders \<Rightarrow> 'q RestRequestOption option \<Rightarrow> ('q, 'b, 'v) AxiosRequestConfig" where
  "buildBaseConfig defaultHeaders options =
     (let mergedHeaders = defaultHeaders ++ coalesce (Option.bind options opt_headers) Map.empty
      in \<lparr>cfg_headers = Some mergedHeaders,
          cfg_params = Option.bind options opt_params,
          cfg_timeout = Some (coalesce (Option.bind options opt_timeoutMs) 10000),
          cfg_method = None, cfg_url = None, cfg_data = None, cfg_rest = Map.empty\<rparr>)"

text \<open>
  What a call of \<^verbatim>\<open>request\<close> gives back: the body or the whole response. The calls
  the routine makes to its hooks and to the transport are recorded, in order, beside the
  outside state, so that theorems can speak of what was called with what: the auth hook
  with its two arguments and what it gave back, the transport and the error mapper with
  their argument.
\<close>

datatype 't Returned = Body 't | Full "'t AxiosResponse"

datatype ('q, 'b, 'v, 'u) Call =
    Call_applyAuth "('q, 'b, 'v) AxiosRequestConfig" "RequestContext option"
      "'u Thrown + ('q, 'b, 'v) AxiosRequestConfig"
  | Call_request "('q, 'b, 'v) AxiosRequestConfig"
  | Call_mapAndThrowError "'u Thrown"

record ('q, 'b, 'v, 'u, 'w) Run =
  world :: 'w
  calls :: "('q, 'b, 'v, 'u) Call list"

definition do_applyAuth ::
  "('q, 'b, 'v, 't, 'u, 'x, 'w) AbstractRestTemplate \<Rightarrow> ('q, 'b, 'v) AxiosRequestConfig \<Rightarrow>
     RequestContext option \<Rightarrow> ('q, 'b, 'v, 'u, 'w) Run \<Rightarrow>
     ('u Thrown + ('q, 'b, 'v) AxiosRequestConfig) \<times> ('q, 'b, 'v, 'u, 'w) Run" where
  "do_applyAuth this config ctx s =
     (case applyAuth this config ctx (world s) of
        (r, w) \<Rightarrow> (r, \<lparr>world = w, calls = calls s @ [Call_applyAuth config ctx r]\<rparr>))"

definition do_request ::
  "('q, 'b, 'v, 't, 'u, 'x, 'w) AbstractRestTemplate \<Rightarrow> ('q, 'b, 'v) AxiosRequestConfig \<Rightarrow>
     ('q, 'b, 'v, 'u, 'w) Run \<Rightarrow> ('u Thrown + 't AxiosResponse) \<times> ('q, 'b, 'v, 'u, 'w) Run" where
  "do_request this config s =
     (case axiosRef_request this config (world s) of
        (r, w) \<Rightarrow> (r, \<lparr>world = w, calls = calls s @ [Call_request config]\<rparr>))"

definition do_mapAndThrowError ::
  "('q, 'b, 'v, 't, 'u, 'x, 'w) AbstractRestTemplate \<Rightarrow> 'u Thrown \<Rightarrow>
     ('q, 'b, 'v, 'u, 'w) Run \<Rightarrow> ('x Raised + 't Returned) \<times> ('q, 'b, 'v, 'u, 'w) Run" where
  "do_mapAndThrowError this error s =
     (Inl (Threw (mapAndThrowError this error)),
      \<lparr>world = world s, calls = calls s @ [Call_mapAndThrowError error]\<rparr>)"

text \<open>
  \<^verbatim>\<open>request\<close> of abs-rest-template.service.ts, with the retry on 401.
  \<open>tried\<close> is the \<^verbatim>\<open>try\<close> block, the second \<open>case\<close> the \<^verbatim>\<open>catch\<close>,
  whose first statement after the cast reads \<^verbatim>\<open>ax.response\<close>: on a caught
  \<^verbatim>\<open>undefined\<close> or \<^verbatim>\<open>null\<close> that read raises a \<^verbatim>\<open>TypeError\<close> out of the
  \<^verbatim>\<open>catch\<close> block, and the call ends there.
  The budget \<^verbatim>\<open>maxRetryAttempts\<close> is an integer, of either sign: a JavaScript number
  on which \<^verbatim>\<open>- 1\<close> is exact. The recursion ends because the budget of a retry is
  positive and one less each time.
\<close>

function request ::
  "('q, 'b, 'v, 't, 'u, 'x, 'w) AbstractRestTemplate \<Rightarrow> string \<Rightarrow> string \<Rightarrow> 'b option \<Rightarrow>
     'q RestRequestOption option \<Rightarrow> int \<Rightarrow> ('q, 'b, 'v, 'u, 'w) Run \<Rightarrow>
     ('x Raised + 't Returned) \<times> ('q, 'b, 'v, 'u, 'w) Run" where
  "request this method url body options maxRetryAttempts s =
     (let tried =
        (let baseCfg = buildBaseConfig (getDefaultHeaders this) options in
         case do_applyAuth this baseCfg (Option.bind options opt_context) s of
           (Inl error, s1) \<Rightarrow> (Inl error, s1)
         | (Inr withAuth, s1) \<Rightarrow>
             let finalCfg = withAuth\<lparr>cfg_method := Some method, cfg_url := Some url,
                                     cfg_data := body\<rparr>
             in (case do_request this finalCfg s1 of
                   (Inl error, s2) \<Rightarrow> (Inl error, s2)
                 | (Inr resp, s2) \<Rightarrow>
                     (Inr (if coalesce (Option.bind options opt_responseMode) ResponseMode_data
                              = ResponseMode_full
                           then Full resp else Body (resp_data resp)), s2)))
      in case tried of
           (Inr result, s') \<Rightarrow> (Inr result, s')
         | (Inl error, s') \<Rightarrow>
             (case error of
                Nullish \<Rightarrow> (Inl TypeError, s')
              | Obj ax \<Rightarrow>
                  let status = Option.bind (err_response ax) err_status
                  in if status = Some 401 \<and> maxRetryAttempts > 0
                     then request this method url body options (maxRetryAttempts - 1) s'
                     else do_mapAndThrowError this error s'))"
  by pat_completeness auto
termination
  by (relation "measure (\<lambda>(this, method, url, body, options, maxRetryAttempts, s).
        nat maxRetryAttempts)") auto

text \<open>
  \<^verbatim>\<open>request\<close> of the second copy of the abstract template, the one with no
  \<^verbatim>\<open>maxRetryAttempts\<close> parameter: its \<^verbatim>\<open>catch\<close> block is the call of
  \<^verbatim>\<open>mapAndThrowError\<close> alone, with whatever was caught.
\<close>

definition request_plain ::
  "('q, 'b, 'v, 't, 'u, 'x, 'w) AbstractRestTemplate \<Rightarrow> string \<Rightarrow> string \<Rightarrow> 'b option \<Rightarrow>
     'q RestRequestOption option \<Rightarrow> ('q, 'b, 'v, 'u, 'w) Run \<Rightarrow>
     ('x Raised + 't Returned) \<times> ('q, 'b, 'v, 'u, 'w) Run" where
  "request_plain this method url body options s =
     (let tried =
        (let baseCfg = buildBaseConfig (getDefaultHeaders this) options in
         case do_applyAuth this baseCfg (Option.bind options opt_context) s of
           (Inl error, s1) \<Rightarrow> (Inl error, s1)
         | (Inr withAuth, s1) \<Rightarrow>
             let finalCfg = withAuth\<lparr>cfg_method := Some method, cfg_url := Some url,
                                     cfg_data := body\<rparr>
             in (case do_request this finalCfg s1 of
                   (Inl error, s2) \<Rightarrow> (Inl error, s2)
                 | (Inr resp, s2) \<Rightarrow>
                     (Inr (if coalesce (Option.bind options opt_responseMode) ResponseMode_data
                              = ResponseMode_full
                           then Full resp else Body (resp_data resp)), s2)))
      in case tried of
           (Inr result, s') \<Rightarrow> (Inr result, s')
         | (Inl error, s') \<Rightarrow> do_mapAndThrowError this error s')"

text \<open>
  The verb methods of abs-rest-template.service.ts. None passes a fifth argument, so
  \<^verbatim>\<open>maxRetryAttempts\<close> takes its default, 0.
\<close>

definition get where
  "get this url options s = request this ''GET'' url None options 0 s"

definition post where
  "post this url body options s = request this ''POST'' url body options 0 s"

definition put where
  "put this url body options s = request this ''PUT'' url body options 0 s"

definition patch where
  "patch this url body options s = request this ''PATCH'' url body options 0 s"

definition delete where
  "delete this url options s = request this ''DELETE'' url None options 0 s"

text \<open>The verb methods of the second copy.\<close>

definition get_plain where
  "get_plain this url options s = request_plain this ''GET'' url None options s"

definition post_plain where
  "post_plain this url body options s = request_plain this ''POST'' url body options s"

definition put_plain where
  "put_plain this url body options s = request_plain this ''PUT'' url body options s"

definition patch_plain where
  "patch_plain this url body options s = request_plain this ''PATCH'' url body options s"

definition delete_plain where
  "delete_plain this url options s = request_plain this ''DELETE'' url None options s"

section \<open>The default template (rest-template.service.ts)\<close>

definition RestTemplateService_getDefaultHeaders :: RawAxiosRequestHeaders where
  "RestTemplateService_getDefaultHeaders =
     [''Accept'' \<mapsto> ''application/json'', ''Content-Type'' \<mapsto> ''application/json'']"

text \<open>
  \<^verbatim>\<open>applyAuth\<close> is specified up to the identity of the object it returns, so it is
  modelled over a store of configuration objects: a list, an object's reference being its
  index, and a new object being appended. A configuration holds its header object by
  value: writing to the headers of a stored configuration would change its cell.
  \<open>falsy\<close> is \<^verbatim>\<open>!x\<close> on an optional string: true of \<^verbatim>\<open>undefined\<close> and of the
  empty string.
\<close>

definition falsy :: "string option \<Rightarrow> bool" where
  "falsy x = (case x of None \<Rightarrow> True | Some s \<Rightarrow> s = [])"

definition RestTemplateService_applyAuth ::
  "nat \<Rightarrow> RequestContext option \<Rightarrow> ('q, 'b, 'v) AxiosRequestConfig list \<Rightarrow>
     nat \<times> ('q, 'b, 'v) AxiosRequestConfig list" where
  "RestTemplateService_applyAuth config context store =
     (if falsy (Option.bind context ctx_token) then (config, store)
      else
        let baseHeaders = coalesce (cfg_headers (store ! config)) Map.empty;
            created = (store ! config)\<lparr>cfg_headers :=
              Some (baseHeaders(''Authorization'' \<mapsto>
                ''Bearer '' @ the (Option.bind context ctx_token)))\<rparr>
        in (length store, store @ [created]))"

text \<open>
  \<^verbatim>\<open>UpstreamErrorBody\<close>, whose \<^verbatim>\<open>code\<close> is a string or a number (of type
  \<open>'n\<close>) and whose \<^verbatim>\<open>details\<close> are of any type \<open>'d\<close>; and Nest's
  \<^verbatim>\<open>HttpException\<close>, read by \<^verbatim>\<open>getResponse()\<close> and \<^verbatim>\<open>getStatus()\<close>.
\<close>

datatype 'n Code = Code_string string | Code_number 'n

record ('n, 'd) UpstreamErrorBody =
  body_message :: "string option"
  body_code :: "'n Code option"
  body_details :: "'d option"

record ('n, 'd) Payload =
  payload_message :: string
  payload_code :: "'n Code"
  payload_details :: "'d option"

record ('n, 'd) HttpException =
  getResponse :: "('n, 'd) Payload"
  getStatus :: int

definition BAD_GATEWAY :: int where
  "BAD_GATEWAY = 502"

text \<open>
  \<^verbatim>\<open>mapAndThrowError\<close> ends in its only \<^verbatim>\<open>throw\<close>; the value of the model is
  what the call raises: the exception thrown, or the \<^verbatim>\<open>TypeError\<close> of its first read,
  \<^verbatim>\<open>ax.response\<close>, when the argument is \<^verbatim>\<open>undefined\<close> or \<^verbatim>\<open>null\<close>.
\<close>

definition RestTemplateService_mapAndThrowError ::
  "('n, 'd) UpstreamErrorBody Thrown \<Rightarrow> ('n, 'd) HttpException Raised" where
  "RestTemplateService_mapAndThrowError error =
     (case error of
        Nullish \<Rightarrow> TypeError
      | Obj ax \<Rightarrow>
          let status = coalesce (Option.bind (err_response ax) err_status) BAD_GATEWAY;
              data = Option.bind (err_response ax) err_data;
              message = coalesce (Option.bind data body_message)
                          (coalesce (err_message ax) ''Upstream request failed'');
              payload = \<lparr>payload_message = message,
                         payload_code = coalesce (Option.bind data body_code)
                                          (Code_string ''UPSTREAM_ERROR''),
                         payload_details = Option.bind data body_details\<rparr>
          in Threw \<lparr>getResponse = payload, getStatus = status\<rparr>)"

text \<open>
  The default template over a transport: the three overrides as the hooks of the
  abstract template. \<^verbatim>\<open>applyAuth\<close> runs on a store that holds the base configuration
  alone, and the hook's value is the object its result refers to.
\<close>

definition RestTemplateService ::
  "(('q, 'b, 'v) AxiosRequestConfig \<Rightarrow> 'w \<Rightarrow>
      (('n, 'd) UpstreamErrorBody Thrown + 't AxiosResponse) \<times> 'w) \<Rightarrow>
   ('q, 'b, 'v, 't, ('n, 'd) UpstreamErrorBody, ('n, 'd) HttpException Raised, 'w)
     AbstractRestTemplate" where
  "RestTemplateService http =
     \<lparr>getDefaultHeaders = RestTemplateService_getDefaultHeaders,
      applyAuth = (\<lambda>config context w.
        (case RestTemplateService_applyAuth 0 context [config] of
           (r, store) \<Rightarrow> (Inr (store ! r), w))),
      axiosRef_request = http,
      mapAndThrowError = RestTemplateService_mapAndThrowError\<rparr>"

section \<open>Notions the theorems are stated with\<close>

text \<open>
  The \<^verbatim>\<open>try\<close> block that both copies of \<^verbatim>\<open>request\<close> share, steps 1 to 5
  of the routine, on its own: \<open>Inl\<close> is what the \<^verbatim>\<open>catch\<close> block receives.
\<close>

definition attempt ::
  "('q, 'b, 'v, 't, 'u, 'x, 'w) AbstractRestTemplate \<Rightarrow> string \<Rightarrow> string \<Rightarrow> 'b option \<Rightarrow>
     'q RestRequestOption option \<Rightarrow> ('q, 'b, 'v, 'u, 'w) Run \<Rightarrow>
     ('u Thrown + 't Returned) \<times> ('q, 'b, 'v, 'u, 'w) Run" where
  "attempt this method url body options s =
     (let baseCfg = buildBaseConfig (getDefaultHeaders this) options in
      case do_applyAuth this baseCfg (Option.bind options opt_context) s of
        (Inl error, s1) \<Rightarrow> (Inl error, s1)
      | (Inr withAuth, s1) \<Rightarrow>
          let finalCfg = withAuth\<lparr>cfg_method := Some method, cfg_url := Some url,
                                  cfg_data := body\<rparr>
          in (case do_request this finalCfg s1 of
                (Inl error, s2) \<Rightarrow> (Inl error, s2)
              | (Inr resp, s2) \<Rightarrow>
                  (Inr (if coalesce (Option.bind options opt_responseMode) ResponseMode_data
                           = ResponseMode_full
                        then Full resp else Body (resp_data resp)), s2)))"

text \<open>\<^verbatim>\<open>ax.response?.status\<close> of a captured object.\<close>

definition status_of :: "'u AxiosError \<Rightarrow> int option" where
  "status_of ax = Option.bind (err_response ax) err_status"

text \<open>The calls recorded between two states of a run, and the kinds of call.\<close>

definition new_calls ::
  "('q, 'b, 'v, 'u, 'w) Run \<Rightarrow> ('q, 'b, 'v, 'u, 'w) Run \<Rightarrow> ('q, 'b, 'v, 'u) Call list" where
  "new_calls s s' = drop (length (calls s)) (calls s')"

fun is_dispatch :: "('q, 'b, 'v, 'u) Call \<Rightarrow> bool" where
  "is_dispatch (Call_request c) = True"
| "is_dispatch _ = False"

fun is_mapping :: "('q, 'b, 'v, 'u) Call \<Rightarrow> bool" where
  "is_mapping (Call_mapAndThrowError e) = True"
| "is_mapping _ = False"

text \<open>
  A configuration with no method, no URL and no body; and the order of calls in which
  every auth call receives such a configuration, every dispatch comes right after an auth
  call that returned, with exactly the returned configuration plus method, URL and body,
  and an auth call that returned is followed by its dispatch.
\<close>

definition unaddressed :: "('q, 'b, 'v) AxiosRequestConfig \<Rightarrow> bool" where
  "unaddressed c \<longleftrightarrow> cfg_method c = None \<and> cfg_url c = None \<and> cfg_data c = None"

fun staged :: "string \<Rightarrow> string \<Rightarrow> 'b option \<Rightarrow> ('q, 'b, 'v, 'u) Call list \<Rightarrow> bool" where
  "staged m u b [] = True"
| "staged m u b (Call_applyAuth c x (Inr withAuth) # Call_request c' # rest) =
     (unaddressed c \<and> c' = withAuth\<lparr>cfg_method := Some m, cfg_url := Some u, cfg_data := b\<rparr>
      \<and> staged m u b rest)"
| "staged m u b (Call_applyAuth c x (Inr withAuth) # rest) = False"
| "staged m u b (Call_applyAuth c x (Inl e) # rest) = (unaddressed c \<and> staged m u b rest)"
| "staged m u b (Call_request c' # rest) = False"
| "staged m u b (Call_mapAndThrowError e # rest) = staged m u b rest"

text \<open>
  A run of calls that is staged whatever follows it: one attempt's calls are such a run,
  and so is a call of the error mapper.
\<close>

definition segment :: "string \<Rightarrow> string \<Rightarrow> 'b option \<Rightarrow> ('q, 'b, 'v, 'u) Call list \<Rightarrow> bool" where
  "segment m u b evs \<longleftrightarrow> (\<forall>rest. staged m u b (evs @ rest) = staged m u b rest)"

text \<open>
  How a call ended, read off the calls it made: a call that returns has not called the
  error mapper; a call that raises a thrown value has called the mapper once, as its last
  call, and raises what the mapper threw for the error it was given. Of a call that ends
  in a \<^verbatim>\<open>TypeError\<close> nothing is said.
\<close>

fun raised_by :: "('u Thrown \<Rightarrow> 'x) \<Rightarrow> 'x \<Rightarrow> ('q, 'b, 'v, 'u) Call \<Rightarrow> bool" where
  "raised_by f x (Call_mapAndThrowError e) = (x = f e)"
| "raised_by f x _ = False"

definition settled ::
  "('q, 'b, 'v, 't, 'u, 'x, 'w) AbstractRestTemplate \<Rightarrow> 'x Raised + 't Returned \<Rightarrow>
     ('q, 'b, 'v, 'u) Call list \<Rightarrow> bool" where
  "settled this r evs =
     (case r of
        Inr v \<Rightarrow> filter is_mapping evs = []
      | Inl TypeError \<Rightarrow> True
      | Inl (Threw x) \<Rightarrow> evs \<noteq> [] \<and> raised_by (mapAndThrowError this) x (last evs) \<and>
                 filter is_mapping (butlast evs) = [])"

text \<open>\<^verbatim>\<open>config.headers?.[name]\<close>: one header of a configuration.\<close>

definition header :: "string \<Rightarrow> ('q, 'b, 'v) AxiosRequestConfig \<Rightarrow> string option" where
  "header name config = (case cfg_headers config of None \<Rightarrow> None | Some h \<Rightarrow> h name)"

text \<open>
  The five public methods, by name: the method string each passes, the body each passes
  (\<^verbatim>\<open>get\<close> and \<^verbatim>\<open>delete\<close> pass \<^verbatim>\<open>undefined\<close>), and the call itself, in
  both copies of the template.
\<close>

datatype Verb = GET | POST | PUT | PATCH | DELETE

fun verb_method :: "Verb \<Rightarrow> string" where
  "verb_method GET = ''GET''"
| "verb_method POST = ''POST''"
| "verb_method PUT = ''PUT''"
| "verb_method PATCH = ''PATCH''"
| "verb_method DELETE = ''DELETE''"

fun verb_body :: "Verb \<Rightarrow> 'b option \<Rightarrow> 'b option" where
  "verb_body GET body = None"
| "verb_body DELETE body = None"
| "verb_body v body = body"

fun call_verb where
  "call_verb GET this url body options s = get this url options s"
| "call_verb POST this url body options s = post this url body options s"
| "call_verb PUT this url body options s = put this url body options s"
| "call_verb PATCH this url body options s = patch this url body options s"
| "call_verb DELETE this url body options s = delete this url options s"

fun call_verb_plain where
  "call_verb_plain GET this url body options s = get_plain this url options s"
| "call_verb_plain POST this url body options s = post_plain this url body options s"
| "call_verb_plain PUT this url body options s = put_plain this url body options s"
| "call_verb_plain PATCH this url body options s = patch_plain this url body options s"
| "call_verb_plain DELETE this url body options s = delete_plain this url options s"

text \<open>
  The query string as the specification words it: the pairs, each as encoded key,
  \<^verbatim>\<open>=\<close>, encoded string form of the value, separated by \<^verbatim>\<open>&\<close>.
\<close>

fun join :: "string \<Rightarrow> string list \<Rightarrow> string" where
  "join sep [] = []"
| "join sep [x] = x"
| "join sep (x # xs) = x @ sep @ join sep xs"

definition query_string :: "('n \<Rightarrow> string) \<Rightarrow> (string \<times> 'n QueryValue) list \<Rightarrow> string" where
  "query_string num entries =
     join ''&'' (map (\<lambda>(k, v). form_encode k @ ''='' @ form_encode (String_js num v)) entries)"

text \<open>
  The message and the status of the exception as the specification words them, for an
  error object: the message of the response body when present, falling back to the
  error's own message field; the status of the response when a response is present, and
  502 otherwise.
\<close>

definition spec_message :: "('n, 'd) UpstreamErrorBody AxiosError \<Rightarrow> string option" where
  "spec_message ax =
     (case Option.bind (Option.bind (err_response ax) err_data) body_message of
        Some m \<Rightarrow> Some m
      | None \<Rightarrow> err_message ax)"

definition spec_status :: "('n, 'd) UpstreamErrorBody AxiosError \<Rightarrow> int option" where
  "spec_status ax =
     (case err_response ax of
        Some response \<Rightarrow> err_status response
      | None \<Rightarrow> Some 502)"

section \<open>Test doubles\<close>

text \<open>
  A transport that answers from a script, as the mocked \<^verbatim>\<open>axiosRef.request\<close> of
  rest-template.service.spec.ts does: the outside state is the list of outcomes still to
  give, and an exhausted script rejects with an error that has no response.
  \<open>unauthorized\<close> is the upstream error of the first test of \<^verbatim>\<open>mapAndThrowError\<close>;
  \<open>denied_response\<close> is a response with status 401 that a transport resolves with
  when its \<^verbatim>\<open>validateStatus\<close> lets it through.
\<close>

definition scripted ::
  "('q, 'b, 'v) AxiosRequestConfig \<Rightarrow> ('u Thrown + 't AxiosResponse) list \<Rightarrow>
     ('u Thrown + 't AxiosResponse) \<times> ('u Thrown + 't AxiosResponse) list" where
  "scripted config script =
     (case script of
        [] \<Rightarrow> (Inl (Obj \<lparr>err_message = Some ''script exhausted'', err_response = None\<rparr>), [])
      | r # rs \<Rightarrow> (r, rs))"

definition unauthorized :: "(nat, string) UpstreamErrorBody AxiosError" where
  "unauthorized =
     \<lparr>err_message = Some ''Request failed with status code 401'',
      err_response = Some \<lparr>err_status = Some 401,
        err_data = Some \<lparr>body_message = Some ''Unauthorized'',
          body_code = Some (Code_string ''INVALID_TOKEN''),
          body_details = Some ''token expired''\<rparr>\<rparr>\<rparr>"

definition ok_response :: "string AxiosResponse" where
  "ok_response = \<lparr>resp_status = 200, resp_headers = Map.empty, resp_data = ''pong''\<rparr>"

definition denied_response :: "string AxiosResponse" where
  "denied_response = \<lparr>resp_status = 401, resp_headers = Map.empty, resp_data = ''denied''\<rparr>"

definition start ::
  "'w \<Rightarrow> ('q, 'b, 'v, 'u, 'w) Run" where
  "start w = \<lparr>world = w, calls = []\<rparr>"

text \<open>The default template over the scripted transport, at fixed types.\<close>

definition demo ::
  "(unit, string, unit, string, (nat, string) UpstreamErrorBody,
    (nat, string) HttpException Raised,
    ((nat, string) UpstreamErrorBody Thrown + string AxiosResponse) list)
   AbstractRestTemplate" where
  "demo = RestTemplateService scripted"

text \<open>
  A subclass whose auth hook returns on its first call and throws on every later one (a
  credential that can be fetched once), over the scripted transport: the outside state is
  the number of auth calls made and the script.
\<close>

definition flaky ::
  "(unit, string, unit, string, (nat, string) UpstreamErrorBody,
    (nat, string) HttpException Raised,
    nat \<times> ((nat, string) UpstreamErrorBody Thrown + string AxiosResponse) list)
   AbstractRestTemplate" where
  "flaky =
     \<lparr>getDefaultHeaders = RestTemplateService_getDefaultHeaders,
      applyAuth = (\<lambda>config context w.
        (if fst w = 0 then Inr config
         else Inl (Obj \<lparr>err_message = Some ''no credential'', err_response = None\<rparr>),
         (Suc (fst w), snd w))),
      axiosRef_request = (\<lambda>config w.
        (fst (scripted config (snd w)), (fst w, snd (scripted config (snd w))))),
      mapAndThrowError = RestTemplateService_mapAndThrowError\<rparr>"

text \<open>
  A subclass like the default template but for its error mapper, which tests what it is
  given before it reads it and throws a string.
\<close>

definition tolerant ::
  "(unit, string, unit, string, (nat, string) UpstreamErrorBody, string,
    ((nat, string) UpstreamErrorBody Thrown + string AxiosResponse) list)
   AbstractRestTemplate" where
  "tolerant =
     \<lparr>getDefaultHeaders = RestTemplateService_getDefaultHeaders,
      applyAuth = (\<lambda>config context w. (Inr config, w)),
      axiosRef_request = scripted,
      mapAndThrowError = (\<lambda>error.
        case error of
          Nullish \<Rightarrow> ''nothing was thrown''
        | Obj ax \<Rightarrow> coalesce (err_message ax) ''upstream failure'')\<rparr>"

text \<open>
  What the default template builds for a call with no options, that configuration as
  dispatched by a \<^verbatim>\<open>GET\<close> and by a \<^verbatim>\<open>POST\<close> of a body to \<^verbatim>\<open>/x\<close>,
  options that override a default header, add a header and set the timeout to 0, and
  options that ask for the full response.
\<close>

definition demo_base :: "(unit, string, unit) AxiosRequestConfig" where
  "demo_base = buildBaseConfig RestTemplateService_getDefaultHeaders None"

definition demo_get :: "(unit, string, unit) AxiosRequestConfig" where
  "demo_get = demo_base\<lparr>cfg_method := Some ''GET'', cfg_url := Some ''/x'', cfg_data := None\<rparr>"

definition demo_post :: "(unit, string, unit) AxiosRequestConfig" where
  "demo_post =
     demo_base\<lparr>cfg_method := Some ''POST'', cfg_url := Some ''/x'', cfg_data := Some ''ping''\<rparr>"

definition override_options :: "unit RestRequestOption" where
  "override_options =
     \<lparr>opt_params = Some (), opt_headers = Some [''Accept'' \<mapsto> ''text/plain'', ''X-Trace'' \<mapsto> ''t-1''],
      opt_timeoutMs = Some 0, opt_context = None, opt_responseMode = None\<rparr>"

definition full_mode :: "unit RestRequestOption" where
  "full_mode =
     \<lparr>opt_params = None, opt_headers = None, opt_timeoutMs = None, opt_context = None,
      opt_responseMode = Some ResponseMode_full\<rparr>"

text \<open>
  The configuration and the contexts of the tests of \<^verbatim>\<open>applyAuth\<close> in
  rest-template.service.spec.ts, a configuration that has an \<^verbatim>\<open>Authorization\<close>
  header already, and a context whose token is the empty string.
\<close>

definition traced_config :: "(unit, string, unit) AxiosRequestConfig" where
  "traced_config =
     \<lparr>cfg_headers = Some [''X-Trace'' \<mapsto> ''trace-123''], cfg_params = None,
      cfg_timeout = Some 5000, cfg_method = None, cfg_url = None, cfg_data = None,
      cfg_rest = Map.empty\<rparr>"

definition basic_config :: "(unit, string, unit) AxiosRequestConfig" where
  "basic_config =
     \<lparr>cfg_headers = Some [''Authorization'' \<mapsto> ''Basic dXNlcjpwdw==''], cfg_params = None,
      cfg_timeout = Some 5000, cfg_method = None, cfg_url = None, cfg_data = None,
      cfg_rest = Map.empty\<rparr>"

definition no_token :: RequestContext where
  "no_token = \<lparr>ctx_token = None, ctx_scopes = None, ctx_requestId = None\<rparr>"

definition access_token :: RequestContext where
  "access_token = \<lparr>ctx_token = Some ''access-token'', ctx_scopes = None, ctx_requestId = None\<rparr>"

definition empty_token :: RequestContext where
  "empty_token = \<lparr>ctx_token = Some [], ctx_scopes = None, ctx_requestId = None\<rparr>"

text \<open>
  The failure of the second test of \<^verbatim>\<open>mapAndThrowError\<close>, a thrown object with
  neither a response nor a message, and a thrown object whose response has no status.
\<close>

definition network_timeout :: "(nat, string) UpstreamErrorBody AxiosError" where
  "network_timeout = \<lparr>err_message = Some ''network timeout'', err_response = None\<rparr>"

definition bare_error :: "(nat, string) UpstreamErrorBody AxiosError" where
  "bare_error = \<lparr>err_message = None, err_response = None\<rparr>"

definition statusless :: "(nat, string) UpstreamErrorBody AxiosError" where
  "statusless =
     \<lparr>err_message = Some ''socket closed'',
      err_response = Some \<lparr>err_status = None, err_data = None\<rparr>\<rparr>"

text \<open>
  \<^verbatim>\<open>String(n)\<close> of a natural number below \<open>2 ^ 53\<close>: its decimal numeral.
\<close>

fun decimal :: "nat \<Rightarrow> string" where
  "decimal n =
     (if n < 10 then [''0123456789'' ! n]
      else decimal (n div 10) @ [''0123456789'' ! (n mod 10)])"

declare request.simps [simp del]
declare decimal.simps [simp del]

section \<open>The query utilities\<close>

lemma fold_usp_append:
  "fold (\<lambda>(k, v) u. usp_append u k (f v)) entries acc = acc @ map (\<lambda>(k, v). (k, f v)) entries"
  by (induction entries arbitrary: acc) (auto simp: usp_append_def)

lemma usp_toString_join:
  "usp_toString usp = join ''&'' (map (\<lambda>(k, v). form_encode k @ ''='' @ form_encode v) usp)"
  by (induction usp rule: usp_toString.induct) auto

lemma usp_toString_query_string:
  "usp_toString (map (\<lambda>(k, v). (k, String_js num v)) entries) = query_string num entries"
  by (simp add: usp_toString_join query_string_def comp_def case_prod_unfold)

text \<open>
  C8. For every URL and every mapping of primitive values, \<open>buildUrl\<close> returns the URL
  itself when the mapping is absent or has no key; otherwise it returns the URL, then
  \<^verbatim>\<open>&\<close> if the URL contains a \<^verbatim>\<open>?\<close> and \<^verbatim>\<open>?\<close> if not, then the
  form-encoded pairs of all the entries, each value in its string form, in the order of
  the entries.
\<close>

theorem buildUrl_query:
  "buildUrl num url None = url \<and>
   buildUrl num url (Some []) = url \<and>
   (entries \<noteq> [] \<longrightarrow>
      buildUrl num url (Some entries) =
        url @ (if CHR ''?'' \<in> set url then ''&'' else ''?'') @ query_string num entries)"
  by (simp add: buildUrl_def fold_usp_append usp_toString_query_string)

lemmas encode_defs = query_string_def form_encode_def form_encode_byte_def form_safe_def
  hex_digit_def decimal.simps

theorem buildUrl_query_witness:
  "buildUrl decimal ''https://x/y'' (Some []) = ''https://x/y'' \<and>
   buildUrl decimal ''https://x/y'' (Some [(''a'', QNumber 1), (''b'', QBoolean True)])
     = ''https://x/y?a=1&b=true'' \<and>
   buildUrl decimal ''https://x/y?z=1'' (Some [(''a'', QString ''q'')]) = ''https://x/y?z=1&a=q'' \<and>
   buildUrl decimal ''/search'' (Some [(''q'', QString ''a b&c''), (''page'', QNumber 12)])
     = ''/search?q=a+b%26c&page=12''"
  using buildUrl_query [of decimal "''https://x/y''" "[(''a'', QNumber 1), (''b'', QBoolean True)]"]
    buildUrl_query [of decimal "''https://x/y?z=1''" "[(''a'', QString ''q'')]"]
    buildUrl_query [of decimal "''/search''" "[(''q'', QString ''a b&c''), (''page'', QNumber 12)]"]
  by (simp add: encode_defs)

section \<open>The base configuration\<close>

text \<open>
  C5. For every per-call options value, absent options included, the configuration that
  \<open>buildBaseConfig\<close> builds has as headers the default headers overridden by the per-call
  headers (at every name the per-call value if there is one, the default otherwise), as
  params the per-call params, and as timeout the per-call \<^verbatim>\<open>timeoutMs\<close> when there is
  one and 10000 otherwise.
\<close>

theorem buildBaseConfig_fields:
  "\<exists>merged.
     cfg_headers (buildBaseConfig defaultHeaders options) = Some merged \<and>
     (\<forall>k. merged k =
        (case coalesce (Option.bind options opt_headers) Map.empty k of
           Some v \<Rightarrow> Some v
         | None \<Rightarrow> defaultHeaders k)) \<and>
     cfg_params (buildBaseConfig defaultHeaders options) = Option.bind options opt_params \<and>
     cfg_timeout (buildBaseConfig defaultHeaders options) =
       Some (case Option.bind options opt_timeoutMs of Some t \<Rightarrow> t | None \<Rightarrow> 10000)"
  by (simp add: buildBaseConfig_def coalesce_def map_add_def split: option.splits)

theorem buildBaseConfig_fields_witness:
  "header ''Accept'' (buildBaseConfig RestTemplateService_getDefaultHeaders (Some override_options)
     :: (unit, string, unit) AxiosRequestConfig) = Some ''text/plain'' \<and>
   header ''Content-Type'' (buildBaseConfig RestTemplateService_getDefaultHeaders
     (Some override_options) :: (unit, string, unit) AxiosRequestConfig) = Some ''application/json'' \<and>
   header ''X-Trace'' (buildBaseConfig RestTemplateService_getDefaultHeaders (Some override_options)
     :: (unit, string, unit) AxiosRequestConfig) = Some ''t-1'' \<and>
   cfg_timeout (buildBaseConfig RestTemplateService_getDefaultHeaders (Some override_options)
     :: (unit, string, unit) AxiosRequestConfig) = Some 0 \<and>
   cfg_params (buildBaseConfig RestTemplateService_getDefaultHeaders (Some override_options)
     :: (unit, string, unit) AxiosRequestConfig) = Some () \<and>
   header ''Accept'' demo_base = Some ''application/json'' \<and>
   cfg_timeout demo_base = Some 10000 \<and> cfg_params demo_base = None"
  using buildBaseConfig_fields [of RestTemplateService_getDefaultHeaders "Some override_options"]
    buildBaseConfig_fields [of RestTemplateService_getDefaultHeaders None]
  by (simp add: buildBaseConfig_def coalesce_def header_def override_options_def demo_base_def
        RestTemplateService_getDefaultHeaders_def)

section \<open>The default template\<close>

text \<open>
  C3. For every configuration and every context with no token (the context absent, or its
  token unset), \<open>applyAuth\<close> of the default template returns the reference it was given and
  leaves the store as it was: the result is the input object, and no object is created.
\<close>

theorem applyAuth_no_token:
  "context = None \<or> (\<exists>c. context = Some c \<and> ctx_token c = None) \<Longrightarrow>
   RestTemplateService_applyAuth config context store = (config, store)"
  by (auto simp: RestTemplateService_applyAuth_def falsy_def)

theorem applyAuth_no_token_witness:
  "RestTemplateService_applyAuth 0 (Some no_token) [traced_config] = (0, [traced_config]) \<and>
   RestTemplateService_applyAuth 0 None [traced_config] = (0, [traced_config])"
  using applyAuth_no_token [of "Some no_token" 0 "[traced_config]"]
    applyAuth_no_token [of None 0 "[traced_config]"]
  by (simp add: no_token_def)

text \<open>
  C4, as amended. For every configuration of the store and every context whose token is a
  non-empty string, \<open>applyAuth\<close> of the default template returns a reference to a new object,
  different from the input, and leaves every object of the store as it was. The new
  configuration has the header \<^verbatim>\<open>Authorization\<close> equal to \<^verbatim>\<open>Bearer\<close>, a space and
  the token, in place of an \<^verbatim>\<open>Authorization\<close> header of the input if there was one; every
  other header is as in the input, and so is every other field.
\<close>

theorem applyAuth_with_token:
  assumes "config < length store" and "context = Some c" and "ctx_token c = Some token"
    and "token \<noteq> []"
  shows "case RestTemplateService_applyAuth config context store of
           (result, store') \<Rightarrow>
             result \<noteq> config \<and> result < length store' \<and>
             take (length store) store' = store \<and>
             header ''Authorization'' (store' ! result) = Some (''Bearer '' @ token) \<and>
             (\<forall>k. k \<noteq> ''Authorization'' \<longrightarrow>
                header k (store' ! result) = header k (store ! config)) \<and>
             (store' ! result)\<lparr>cfg_headers := cfg_headers (store ! config)\<rparr> = store ! config"
  using assms
  by (auto simp: RestTemplateService_applyAuth_def falsy_def header_def coalesce_def
           split: option.splits)

theorem applyAuth_with_token_witness:
  "RestTemplateService_applyAuth 0 (Some access_token) [traced_config] =
     (1, [traced_config, traced_config\<lparr>cfg_headers :=
        Some [''X-Trace'' \<mapsto> ''trace-123'', ''Authorization'' \<mapsto> ''Bearer access-token'']\<rparr>])"
  using applyAuth_with_token [of 0 "[traced_config]" "Some access_token" access_token
    "''access-token''"]
  by (simp add: RestTemplateService_applyAuth_def falsy_def coalesce_def access_token_def
        traced_config_def)

text \<open>
  Where the claim as first stated fails: an \<^verbatim>\<open>Authorization\<close> header of the input is
  not kept but replaced, and a context whose token is set to the empty string gets the
  input object back, with no \<^verbatim>\<open>Authorization\<close> header added.
\<close>

theorem applyAuth_token_counterexample:
  "header ''Authorization'' basic_config = Some ''Basic dXNlcjpwdw=='' \<and>
   header ''Authorization''
     (snd (RestTemplateService_applyAuth 0 (Some access_token) [basic_config]) !
      fst (RestTemplateService_applyAuth 0 (Some access_token) [basic_config]))
     = Some ''Bearer access-token'' \<and>
   ctx_token empty_token = Some [] \<and>
   RestTemplateService_applyAuth 0 (Some empty_token) [traced_config] = (0, [traced_config]) \<and>
   header ''Authorization'' traced_config = None"
  by (simp add: RestTemplateService_applyAuth_def falsy_def coalesce_def header_def
        access_token_def empty_token_def basic_config_def traced_config_def)

text \<open>
  C2, as amended. For every error value other than \<^verbatim>\<open>undefined\<close> and \<^verbatim>\<open>null\<close>,
  \<open>mapAndThrowError\<close> of the default template throws an \<^verbatim>\<open>HttpException\<close> whose
  status is the status of the error's response when there is a response with a status and
  502 otherwise, and whose payload has as message the message of the response body when
  present, else the error's own message when present, else the fixed text
  \<^verbatim>\<open>Upstream request failed\<close>; as code the code of the response body when present, else
  \<^verbatim>\<open>UPSTREAM_ERROR\<close>; and as details the details of the response body. It does not
  return: what the call gives is always something raised.
\<close>

theorem mapAndThrowError_payload:
  "\<exists>exn. RestTemplateService_mapAndThrowError (Obj ax) = Threw exn \<and>
     getStatus exn =
       (case Option.bind (err_response ax) err_status of Some st \<Rightarrow> st | None \<Rightarrow> 502) \<and>
     payload_message (getResponse exn) =
       (case Option.bind (Option.bind (err_response ax) err_data) body_message of
          Some m \<Rightarrow> m
        | None \<Rightarrow> (case err_message ax of
                    Some m \<Rightarrow> m
                  | None \<Rightarrow> ''Upstream request failed'')) \<and>
     payload_code (getResponse exn) =
       (case Option.bind (Option.bind (err_response ax) err_data) body_code of
          Some c \<Rightarrow> c
        | None \<Rightarrow> Code_string ''UPSTREAM_ERROR'') \<and>
     payload_details (getResponse exn) =
       Option.bind (Option.bind (err_response ax) err_data) body_details"
  by (simp add: RestTemplateService_mapAndThrowError_def coalesce_def BAD_GATEWAY_def
           split: option.splits)

theorem mapAndThrowError_payload_witness:
  "RestTemplateService_mapAndThrowError (Obj unauthorized) =
     Threw \<lparr>getResponse = \<lparr>payload_message = ''Unauthorized'',
        payload_code = Code_string ''INVALID_TOKEN'',
        payload_details = Some ''token expired''\<rparr>, getStatus = 401\<rparr> \<and>
   RestTemplateService_mapAndThrowError (Obj network_timeout) =
     Threw \<lparr>getResponse = \<lparr>payload_message = ''network timeout'',
        payload_code = Code_string ''UPSTREAM_ERROR'',
        payload_details = None\<rparr>, getStatus = 502\<rparr>"
  using mapAndThrowError_payload [of unauthorized] mapAndThrowError_payload [of network_timeout]
  by (simp add: RestTemplateService_mapAndThrowError_def coalesce_def BAD_GATEWAY_def
        unauthorized_def network_timeout_def)

text \<open>
  Where the claim as first stated fails. A thrown object with neither a response nor a
  message has no message field to fall back to, and the payload's message is the fixed
  text. A thrown object whose response has no status has no \<^verbatim>\<open>response.status\<close> to
  carry, and the exception's status is 502. And for \<^verbatim>\<open>undefined\<close> or \<^verbatim>\<open>null\<close> what
  is raised is no \<^verbatim>\<open>HttpException\<close> but the \<^verbatim>\<open>TypeError\<close> of the first read.
\<close>

theorem mapAndThrowError_message_counterexample:
  "spec_message bare_error = None \<and>
   RestTemplateService_mapAndThrowError (Obj bare_error) =
     Threw \<lparr>getResponse = \<lparr>payload_message = ''Upstream request failed'',
        payload_code = Code_string ''UPSTREAM_ERROR'',
        payload_details = None\<rparr>, getStatus = 502\<rparr> \<and>
   spec_status statusless = None \<and>
   RestTemplateService_mapAndThrowError (Obj statusless) =
     Threw \<lparr>getResponse = \<lparr>payload_message = ''socket closed'',
        payload_code = Code_string ''UPSTREAM_ERROR'',
        payload_details = None\<rparr>, getStatus = 502\<rparr> \<and>
   RestTemplateService_mapAndThrowError (Nullish :: (nat, string) UpstreamErrorBody Thrown)
     = TypeError"
  by (simp add: spec_message_def spec_status_def bare_error_def statusless_def
        RestTemplateService_mapAndThrowError_def coalesce_def BAD_GATEWAY_def)

section \<open>The request routine\<close>

lemma request_catch:
  "request this m u b o' n s =
     (case attempt this m u b o' s of
        (Inr r, s') \<Rightarrow> (Inr r, s')
      | (Inl Nullish, s') \<Rightarrow> (Inl TypeError, s')
      | (Inl (Obj e), s') \<Rightarrow>
          if status_of e = Some 401 \<and> 0 < n then request this m u b o' (n - 1) s'
          else do_mapAndThrowError this (Obj e) s')"
  by (subst request.simps)
     (simp add: attempt_def status_of_def Let_def split: prod.splits sum.splits Thrown.splits)

lemma request_plain_catch:
  "request_plain this m u b o' s =
     (case attempt this m u b o' s of
        (Inr r, s') \<Rightarrow> (Inr r, s')
      | (Inl e, s') \<Rightarrow> do_mapAndThrowError this e s')"
  by (simp add: request_plain_def attempt_def Let_def split: prod.splits sum.splits)

lemma request_returns:
  "attempt this m u b o' s = (Inr v, s') \<Longrightarrow> request this m u b o' n s = (Inr v, s')"
  by (simp add: request_catch [of this m u b o' n s])

lemma request_type_error:
  "attempt this m u b o' s = (Inl Nullish, s') \<Longrightarrow>
     request this m u b o' n s = (Inl TypeError, s')"
  by (simp add: request_catch [of this m u b o' n s])

lemma request_retries:
  "attempt this m u b o' s = (Inl (Obj e), s') \<Longrightarrow> status_of e = Some 401 \<Longrightarrow> 0 < n \<Longrightarrow>
     request this m u b o' n s = request this m u b o' (n - 1) s'"
  by (simp add: request_catch [of this m u b o' n s])

lemma request_raises:
  "attempt this m u b o' s = (Inl (Obj e), s') \<Longrightarrow> \<not> (status_of e = Some 401 \<and> 0 < n) \<Longrightarrow>
     request this m u b o' n s =
       (Inl (Threw (mapAndThrowError this (Obj e))),
        \<lparr>world = world s', calls = calls s' @ [Call_mapAndThrowError (Obj e)]\<rparr>)"
  by (auto simp: request_catch [of this m u b o' n s] do_mapAndThrowError_def)

lemma request_plain_raises:
  "attempt this m u b o' s = (Inl e, s') \<Longrightarrow>
     request_plain this m u b o' s =
       (Inl (Threw (mapAndThrowError this e)),
        \<lparr>world = world s', calls = calls s' @ [Call_mapAndThrowError e]\<rparr>)"
  by (simp add: request_plain_catch do_mapAndThrowError_def)

lemma request_nonpositive:
  "n \<le> 0 \<Longrightarrow> request this m u b o' n s = request this m u b o' 0 s"
  by (simp add: request_catch [of this m u b o' n s] request_catch [of this m u b o' 0 s]
           split: prod.splits sum.splits Thrown.splits)

lemma request_zero_plain:
  "fst (attempt this m u b o' s) \<noteq> Inl Nullish \<Longrightarrow>
     request this m u b o' 0 s = request_plain this m u b o' s"
  by (auto simp: request_catch [of this m u b o' 0 s] request_plain_catch
           split: prod.splits sum.splits Thrown.splits)

subsection \<open>The calls of one attempt, and of a whole call\<close>

lemma unaddressed_base: "unaddressed (buildBaseConfig dh o')"
  by (simp add: unaddressed_def buildBaseConfig_def)

lemma attempt_calls:
  assumes "attempt this m u b o' s = (r, s')"
  shows "\<exists>evs. calls s' = calls s @ evs \<and> segment m u b evs \<and>
           length (filter is_dispatch evs) \<le> 1 \<and> filter is_mapping evs = []"
  using assms
  by (auto simp: attempt_def do_applyAuth_def do_request_def Let_def segment_def unaddressed_base
           split: prod.splits sum.splits)

lemma segment_append: "segment m u b xs \<Longrightarrow> segment m u b ys \<Longrightarrow> segment m u b (xs @ ys)"
  by (simp add: segment_def)

lemma segment_mapping: "segment m u b [Call_mapAndThrowError e]"
  by (simp add: segment_def)

lemma segment_staged:
  assumes "segment m u b evs"
  shows "staged m u b evs"
  using assms unfolding segment_def by (metis append_Nil2 staged.simps(1))

lemma settled_returned: "filter is_mapping evs = [] \<Longrightarrow> settled this (Inr v) evs"
  by (simp add: settled_def)

lemma settled_type_error: "settled this (Inl TypeError) evs"
  by (simp add: settled_def)

lemma settled_raised:
  "filter is_mapping evs = [] \<Longrightarrow>
     settled this (Inl (Threw (mapAndThrowError this e))) (evs @ [Call_mapAndThrowError e])"
  by (simp add: settled_def)

lemma settled_after:
  assumes "filter is_mapping evs = []" and "settled this r evs'"
  shows "settled this r (evs @ evs')"
proof (cases r)
  case (Inr v)
  with assms show ?thesis by (simp add: settled_def)
next
  case (Inl raised)
  show ?thesis
  proof (cases raised)
    case TypeError
    with Inl show ?thesis by (simp add: settled_def)
  next
    case (Threw x)
    with assms Inl have "evs' \<noteq> []" by (simp add: settled_def)
    then have "last (evs @ evs') = last evs'" "butlast (evs @ evs') = evs @ butlast evs'"
      by (simp_all add: butlast_append)
    with assms Inl Threw show ?thesis by (simp add: settled_def)
  qed
qed

text \<open>
  The calls of one call of \<open>request\<close>, when its one attempt ends the call: the attempt's
  calls, and the call of the mapper if the attempt failed with an object.
\<close>

lemma request_last_attempt:
  assumes att: "attempt this m u b o' s = (a, s')"
    and last: "\<forall>e. a = Inl (Obj e) \<longrightarrow> \<not> (status_of e = Some 401 \<and> 0 < n)"
    and req: "request this m u b o' n s = (r, sf)"
  shows "\<exists>evs. calls sf = calls s @ evs \<and> segment m u b evs \<and>
       length (filter is_dispatch evs) \<le> 1 \<and> settled this r evs"
proof -
  from attempt_calls [OF att] obtain evs where
    evs: "calls s' = calls s @ evs" "segment m u b evs"
         "length (filter is_dispatch evs) \<le> 1" "filter is_mapping evs = []"
    by blast
  show ?thesis
  proof (cases a)
    case (Inr v)
    with att req have "r = Inr v" "sf = s'"
      by (simp_all add: request_returns)
    with evs show ?thesis by (auto intro: settled_returned)
  next
    case (Inl thrown)
    show ?thesis
    proof (cases thrown)
      case Nullish
      with Inl att req have "r = Inl TypeError" "sf = s'"
        by (simp_all add: request_type_error)
      with evs show ?thesis by (auto intro: settled_type_error)
    next
      case (Obj e)
      with Inl last have "\<not> (status_of e = Some 401 \<and> 0 < n)" by simp
      with Inl Obj att req have res: "r = Inl (Threw (mapAndThrowError this (Obj e)))"
          "calls sf = calls s' @ [Call_mapAndThrowError (Obj e)]"
        by (auto simp: request_raises)
      have "calls sf = calls s @ (evs @ [Call_mapAndThrowError (Obj e)])"
        using res evs by simp
      moreover have "segment m u b (evs @ [Call_mapAndThrowError (Obj e)])"
        using evs segment_mapping by (blast intro: segment_append)
      moreover have "length (filter is_dispatch (evs @ [Call_mapAndThrowError (Obj e)])) \<le> 1"
        using evs by simp
      moreover have "settled this r (evs @ [Call_mapAndThrowError (Obj e)])"
        using res evs by (simp add: settled_raised)
      ultimately show ?thesis by blast
    qed
  qed
qed

lemma request_calls:
  "request this m u b o' n s = (r, sf) \<Longrightarrow>
     \<exists>evs. calls sf = calls s @ evs \<and> segment m u b evs \<and>
       length (filter is_dispatch evs) \<le> nat n + 1 \<and> settled this r evs"
proof (induction "nat n" arbitrary: n s)
  case 0
  obtain a s' where att: "attempt this m u b o' s = (a, s')"
    by (cases "attempt this m u b o' s")
  from "0.hyps" have "\<forall>e. a = Inl (Obj e) \<longrightarrow> \<not> (status_of e = Some 401 \<and> 0 < n)"
    by simp
  from request_last_attempt [OF att this "0.prems"] show ?case
    by auto
next
  case (Suc k)
  obtain a s' where att: "attempt this m u b o' s = (a, s')"
    by (cases "attempt this m u b o' s")
  from Suc.hyps have n: "0 < n" "k = nat (n - 1)" by simp_all
  show ?case
  proof (cases "\<exists>e. a = Inl (Obj e) \<and> status_of e = Some 401")
    case False
    then have "\<forall>e. a = Inl (Obj e) \<longrightarrow> \<not> (status_of e = Some 401 \<and> 0 < n)"
      by simp
    from request_last_attempt [OF att this Suc.prems] show ?thesis
      by auto
  next
    case True
    then obtain e where e: "a = Inl (Obj e)" "status_of e = Some 401"
      by blast
    from attempt_calls [OF att] obtain evs where
      evs: "calls s' = calls s @ evs" "segment m u b evs"
           "length (filter is_dispatch evs) \<le> 1" "filter is_mapping evs = []"
      by blast
    from e att Suc.prems n have "request this m u b o' (n - 1) s' = (r, sf)"
      by (simp add: request_retries)
    from Suc.hyps(1) [OF n(2) this] obtain evs' where
      evs': "calls sf = calls s' @ evs'" "segment m u b evs'"
        "length (filter is_dispatch evs') \<le> nat (n - 1) + 1" "settled this r evs'"
      by blast
    have "calls sf = calls s @ (evs @ evs')"
      using evs evs' by simp
    moreover have "segment m u b (evs @ evs')"
      using evs evs' by (blast intro: segment_append)
    moreover have "length (filter is_dispatch (evs @ evs')) \<le> nat n + 1"
      using evs evs' n by simp
    moreover have "settled this r (evs @ evs')"
      using evs evs' by (blast intro: settled_after)
    ultimately show ?thesis by blast
  qed
qed

lemma request_new_calls:
  assumes "request this m u b o' n s = (r, sf)"
  shows "calls sf = calls s @ new_calls s sf" and "segment m u b (new_calls s sf)"
    and "length (filter is_dispatch (new_calls s sf)) \<le> nat n + 1"
    and "settled this r (new_calls s sf)"
proof -
  from request_calls [OF assms] obtain evs where
    evs: "calls sf = calls s @ evs" "segment m u b evs"
       "length (filter is_dispatch evs) \<le> nat n + 1" "settled this r evs"
    by blast
  then have eq: "new_calls s sf = evs" by (simp add: new_calls_def)
  show "calls sf = calls s @ new_calls s sf" "segment m u b (new_calls s sf)"
    "length (filter is_dispatch (new_calls s sf)) \<le> nat n + 1"
    "settled this r (new_calls s sf)"
    unfolding eq using evs by simp_all
qed

lemma request_plain_new_calls:
  assumes "request_plain this m u b o' s = (r, sf)"
  shows "segment m u b (new_calls s sf)"
proof -
  obtain a s' where att: "attempt this m u b o' s = (a, s')"
    by (cases "attempt this m u b o' s")
  from attempt_calls [OF att] obtain evs where
    evs: "calls s' = calls s @ evs" "segment m u b evs"
    by blast
  show ?thesis
  proof (cases a)
    case (Inr v)
    with att assms have "sf = s'" by (simp add: request_plain_catch)
    with evs show ?thesis by (simp add: new_calls_def)
  next
    case (Inl e)
    with att assms have "calls sf = calls s @ (evs @ [Call_mapAndThrowError e])"
      using evs by (auto simp: request_plain_raises)
    then have "new_calls s sf = evs @ [Call_mapAndThrowError e]"
      by (simp add: new_calls_def)
    moreover have "segment m u b (evs @ [Call_mapAndThrowError e])"
      using evs(2) segment_mapping by (rule segment_append)
    ultimately show ?thesis by simp
  qed
qed

lemma staged_auth:
  "staged m u b evs \<Longrightarrow> Call_applyAuth c x r \<in> set evs \<Longrightarrow> unaddressed c"
  by (induction m u b evs rule: staged.induct) auto

lemma staged_dispatch:
  "staged m u b evs \<Longrightarrow> Call_request c \<in> set evs \<Longrightarrow>
     cfg_method c = Some m \<and> cfg_url c = Some u \<and> cfg_data c = b"
  by (induction m u b evs rule: staged.induct) auto

lemma call_verb_request:
  "call_verb v this url body o' s = request this (verb_method v) url (verb_body v body) o' 0 s"
  by (cases v) (simp_all add: get_def post_def put_def patch_def delete_def)

lemma call_verb_plain_request:
  "call_verb_plain v this url body o' s =
     request_plain this (verb_method v) url (verb_body v body) o' s"
  by (cases v)
     (simp_all add: get_plain_def post_plain_def put_plain_def patch_plain_def delete_plain_def)

lemma attempt_success:
  assumes "do_applyAuth this (buildBaseConfig (getDefaultHeaders this) o')
             (Option.bind o' opt_context) s = (Inr withAuth, s1)"
    and "do_request this (withAuth\<lparr>cfg_method := Some m, cfg_url := Some u, cfg_data := b\<rparr>) s1
           = (Inr resp, s2)"
  shows "attempt this m u b o' s =
           (Inr (if Option.bind o' opt_responseMode = Some ResponseMode_full
                 then Full resp else Body (resp_data resp)), s2)"
  using assms by (auto simp: attempt_def coalesce_def split: option.splits ResponseMode.splits)

lemma attempt_transport_failure:
  assumes "do_applyAuth this (buildBaseConfig (getDefaultHeaders this) o')
             (Option.bind o' opt_context) s = (Inr withAuth, s1)"
    and "do_request this (withAuth\<lparr>cfg_method := Some m, cfg_url := Some u, cfg_data := b\<rparr>) s1
           = (Inl e, s2)"
  shows "attempt this m u b o' s = (Inl e, s2)"
  using assms by (simp add: attempt_def)

lemma attempt_auth_failure:
  assumes "do_applyAuth this (buildBaseConfig (getDefaultHeaders this) o')
             (Option.bind o' opt_context) s = (Inl e, s1)"
  shows "attempt this m u b o' s = (Inl e, s1)"
  using assms by (simp add: attempt_def)

lemma do_applyAuth_calls:
  "do_applyAuth this c x s = (r, s') \<Longrightarrow> calls s' = calls s @ [Call_applyAuth c x r]"
  by (auto simp: do_applyAuth_def split: prod.splits)

lemma do_request_calls:
  "do_request this c s = (r, s') \<Longrightarrow> calls s' = calls s @ [Call_request c]"
  by (auto simp: do_request_def split: prod.splits)

lemmas demo_defs = demo_def RestTemplateService_def scripted_def start_def unauthorized_def
  ok_response_def denied_response_def RestTemplateService_applyAuth_def falsy_def
  do_applyAuth_def do_request_def do_mapAndThrowError_def buildBaseConfig_def attempt_def
  status_of_def new_calls_def RestTemplateService_mapAndThrowError_def coalesce_def
  BAD_GATEWAY_def Let_def RestTemplateService_getDefaultHeaders_def demo_base_def demo_get_def
  demo_post_def full_mode_def settled_def unaddressed_def flaky_def

text \<open>
  C1, as amended. In the request routine with the retry, a failure other than
  \<^verbatim>\<open>undefined\<close> and \<^verbatim>\<open>null\<close>, captured in the auth step or in the transport
  dispatch, is handled in one of two ways: when it carries status 401 and the budget is
  positive, the call is the whole routine again from the state the failure left, with the
  budget less one; otherwise the error mapper is called with the captured error and the
  call raises what the mapper throws. A call returns only if it never called the mapper,
  it raises a thrown value only if that is what the mapper threw in its last call, and it
  dispatches at most budget plus one times. In particular, with budget 1, a transport that
  rejects the first dispatch with an error of status 401, and an auth hook that returns on
  the retry as on the first attempt, the calls are auth, dispatch, auth, dispatch: one more
  dispatch, and the mapper only after it. A response that the transport resolves with,
  whatever its status, is returned and nothing is retried.
\<close>

theorem request_failure_handling:
  "((do_applyAuth this (buildBaseConfig (getDefaultHeaders this) options)
       (Option.bind options opt_context) s = (Inl (Obj e), s') \<or>
     (do_applyAuth this (buildBaseConfig (getDefaultHeaders this) options)
        (Option.bind options opt_context) s = (Inr c, sa) \<and>
      do_request this (c\<lparr>cfg_method := Some meth, cfg_url := Some url, cfg_data := body\<rparr>) sa
        = (Inl (Obj e), s'))) \<longrightarrow>
    request this meth url body options n s =
      (if status_of e = Some 401 \<and> 0 < n then request this meth url body options (n - 1) s'
       else (Inl (Threw (mapAndThrowError this (Obj e))),
             \<lparr>world = world s', calls = calls s' @ [Call_mapAndThrowError (Obj e)]\<rparr>))) \<and>
   (request this meth url body options n s = (r, sf) \<longrightarrow>
      settled this r (new_calls s sf) \<and>
      length (filter is_dispatch (new_calls s sf)) \<le> nat n + 1) \<and>
   (do_applyAuth this (buildBaseConfig (getDefaultHeaders this) options)
      (Option.bind options opt_context) s = (Inr c, sa) \<and>
    do_request this (c\<lparr>cfg_method := Some meth, cfg_url := Some url, cfg_data := body\<rparr>) sa
      = (Inl (Obj e), s') \<and>
    status_of e = Some 401 \<and>
    do_applyAuth this (buildBaseConfig (getDefaultHeaders this) options)
      (Option.bind options opt_context) s' = (Inr c', sa') \<longrightarrow>
      take 4 (new_calls s (snd (request this meth url body options 1 s))) =
        [Call_applyAuth (buildBaseConfig (getDefaultHeaders this) options)
           (Option.bind options opt_context) (Inr c),
         Call_request (c\<lparr>cfg_method := Some meth, cfg_url := Some url, cfg_data := body\<rparr>),
         Call_applyAuth (buildBaseConfig (getDefaultHeaders this) options)
           (Option.bind options opt_context) (Inr c'),
         Call_request (c'\<lparr>cfg_method := Some meth, cfg_url := Some url, cfg_data := body\<rparr>)] \<and>
      length (filter is_dispatch (new_calls s (snd (request this meth url body options 1 s)))) = 2) \<and>
   (do_applyAuth this (buildBaseConfig (getDefaultHeaders this) options)
      (Option.bind options opt_context) s = (Inr c, sa) \<and>
    do_request this (c\<lparr>cfg_method := Some meth, cfg_url := Some url, cfg_data := body\<rparr>) sa
      = (Inr resp, sr) \<longrightarrow>
      request this meth url body options n s =
        (Inr (if Option.bind options opt_responseMode = Some ResponseMode_full
              then Full resp else Body (resp_data resp)), sr))"
proof (intro conjI impI)
  assume "do_applyAuth this (buildBaseConfig (getDefaultHeaders this) options)
       (Option.bind options opt_context) s = (Inl (Obj e), s') \<or>
     (do_applyAuth this (buildBaseConfig (getDefaultHeaders this) options)
        (Option.bind options opt_context) s = (Inr c, sa) \<and>
      do_request this (c\<lparr>cfg_method := Some meth, cfg_url := Some url, cfg_data := body\<rparr>) sa
        = (Inl (Obj e), s'))"
  then have "attempt this meth url body options s = (Inl (Obj e), s')"
    by (auto intro: attempt_auth_failure attempt_transport_failure)
  then show "request this meth url body options n s =
      (if status_of e = Some 401 \<and> 0 < n then request this meth url body options (n - 1) s'
       else (Inl (Threw (mapAndThrowError this (Obj e))),
             \<lparr>world = world s', calls = calls s' @ [Call_mapAndThrowError (Obj e)]\<rparr>))"
    by (simp add: request_retries request_raises)
next
  assume "request this meth url body options n s = (r, sf)"
  then show "settled this r (new_calls s sf)"
    and "length (filter is_dispatch (new_calls s sf)) \<le> nat n + 1"
    by (rule request_new_calls)+
next
  assume h: "do_applyAuth this (buildBaseConfig (getDefaultHeaders this) options)
      (Option.bind options opt_context) s = (Inr c, sa) \<and>
    do_request this (c\<lparr>cfg_method := Some meth, cfg_url := Some url, cfg_data := body\<rparr>) sa
      = (Inl (Obj e), s') \<and>
    status_of e = Some 401 \<and>
    do_applyAuth this (buildBaseConfig (getDefaultHeaders this) options)
      (Option.bind options opt_context) s' = (Inr c', sa')"
  obtain a s4 where d2:
    "do_request this (c'\<lparr>cfg_method := Some meth, cfg_url := Some url, cfg_data := body\<rparr>) sa'
       = (a, s4)"
    by (cases "do_request this
          (c'\<lparr>cfg_method := Some meth, cfg_url := Some url, cfg_data := body\<rparr>) sa'")
  let ?four = "[Call_applyAuth (buildBaseConfig (getDefaultHeaders this) options)
           (Option.bind options opt_context) (Inr c),
         Call_request (c\<lparr>cfg_method := Some meth, cfg_url := Some url, cfg_data := body\<rparr>),
         Call_applyAuth (buildBaseConfig (getDefaultHeaders this) options)
           (Option.bind options opt_context) (Inr c'),
         Call_request (c'\<lparr>cfg_method := Some meth, cfg_url := Some url, cfg_data := body\<rparr>)]"
  from h d2 have s4: "calls s4 = calls s @ ?four"
    by (auto dest!: do_applyAuth_calls do_request_calls)
  from h have "attempt this meth url body options s = (Inl (Obj e), s')"
    by (simp add: attempt_transport_failure)
  with h have first:
    "request this meth url body options 1 s = request this meth url body options 0 s'"
    by (simp add: request_retries)
  have "\<exists>tail. calls (snd (request this meth url body options 0 s')) = calls s4 @ tail \<and>
          filter is_dispatch tail = []"
  proof (cases a)
    case (Inr resp)
    with h d2 have "request this meth url body options 0 s' =
        (Inr (if Option.bind options opt_responseMode = Some ResponseMode_full
              then Full resp else Body (resp_data resp)), s4)"
      by (simp add: attempt_success request_returns)
    then show ?thesis by simp
  next
    case (Inl thrown)
    with h d2 have att: "attempt this meth url body options s' = (Inl thrown, s4)"
      by (simp add: attempt_transport_failure)
    show ?thesis
    proof (cases thrown)
      case Nullish
      with att have "request this meth url body options 0 s' = (Inl TypeError, s4)"
        by (simp add: request_type_error)
      then show ?thesis by simp
    next
      case (Obj e2)
      with att have "request this meth url body options 0 s' =
          (Inl (Threw (mapAndThrowError this (Obj e2))),
           \<lparr>world = world s4, calls = calls s4 @ [Call_mapAndThrowError (Obj e2)]\<rparr>)"
        by (simp add: request_raises)
      then show ?thesis by simp
    qed
  qed
  then obtain tail where
    "calls (snd (request this meth url body options 1 s)) = calls s @ ?four @ tail"
    "filter is_dispatch tail = []"
    using first s4 by auto
  then show "take 4 (new_calls s (snd (request this meth url body options 1 s))) = ?four"
    and "length (filter is_dispatch
           (new_calls s (snd (request this meth url body options 1 s)))) = 2"
    by (simp_all add: new_calls_def)
next
  assume "do_applyAuth this (buildBaseConfig (getDefaultHeaders this) options)
      (Option.bind options opt_context) s = (Inr c, sa) \<and>
    do_request this (c\<lparr>cfg_method := Some meth, cfg_url := Some url, cfg_data := body\<rparr>) sa
      = (Inr resp, sr)"
  then show "request this meth url body options n s =
        (Inr (if Option.bind options opt_responseMode = Some ResponseMode_full
              then Full resp else Body (resp_data resp)), sr)"
    by (simp add: attempt_success request_returns)
qed

theorem request_failure_handling_witness:
  "do_applyAuth demo demo_base None (start [Inl (Obj unauthorized), Inl (Obj unauthorized)]) =
     (Inr demo_base,
      \<lparr>world = [Inl (Obj unauthorized), Inl (Obj unauthorized)],
       calls = [Call_applyAuth demo_base None (Inr demo_base)]\<rparr>) \<and>
   do_request demo demo_get
     \<lparr>world = [Inl (Obj unauthorized), Inl (Obj unauthorized)],
      calls = [Call_applyAuth demo_base None (Inr demo_base)]\<rparr> =
     (Inl (Obj unauthorized),
      \<lparr>world = [Inl (Obj unauthorized)],
       calls = [Call_applyAuth demo_base None (Inr demo_base), Call_request demo_get]\<rparr>) \<and>
   status_of unauthorized = Some 401 \<and>
   request demo ''GET'' ''/x'' None None 1
       (start [Inl (Obj unauthorized), Inl (Obj unauthorized)]) =
     (Inl (Threw (RestTemplateService_mapAndThrowError (Obj unauthorized))),
      \<lparr>world = [],
       calls = [Call_applyAuth demo_base None (Inr demo_base), Call_request demo_get,
                Call_applyAuth demo_base None (Inr demo_base), Call_request demo_get,
                Call_mapAndThrowError (Obj unauthorized)]\<rparr>) \<and>
   RestTemplateService_mapAndThrowError (Obj unauthorized) =
     Threw \<lparr>getResponse = \<lparr>payload_message = ''Unauthorized'',
        payload_code = Code_string ''INVALID_TOKEN'',
        payload_details = Some ''token expired''\<rparr>, getStatus = 401\<rparr> \<and>
   request demo ''GET'' ''/x'' None None 1 (start [Inr ok_response]) =
     (Inr (Body ''pong''),
      \<lparr>world = [],
       calls = [Call_applyAuth demo_base None (Inr demo_base), Call_request demo_get]\<rparr>)"
  using request_failure_handling [where this = demo and options = None
      and s = "start [Inr ok_response]" and meth = "''GET''" and url = "''/x''"
      and body = None and n = 1 and c = demo_base and resp = ok_response
      and sa = "\<lparr>world = [Inr ok_response],
                  calls = [Call_applyAuth demo_base None (Inr demo_base)]\<rparr>"
      and sr = "\<lparr>world = [],
                  calls = [Call_applyAuth demo_base None (Inr demo_base),
                           Call_request demo_get]\<rparr>"]
    request_failure_handling [where this = demo and options = None
      and s = "start [Inl (Obj unauthorized), Inl (Obj unauthorized)]" and e = unauthorized
      and meth = "''GET''" and url = "''/x''" and body = None and n = 1
      and c = demo_base and c' = demo_base
      and sa = "\<lparr>world = [Inl (Obj unauthorized), Inl (Obj unauthorized)],
                  calls = [Call_applyAuth demo_base None (Inr demo_base)]\<rparr>"
      and s' = "\<lparr>world = [Inl (Obj unauthorized)],
                  calls = [Call_applyAuth demo_base None (Inr demo_base),
                           Call_request demo_get]\<rparr>"
      and sa' = "\<lparr>world = [Inl (Obj unauthorized)],
                  calls = [Call_applyAuth demo_base None (Inr demo_base),
                           Call_request demo_get,
                           Call_applyAuth demo_base None (Inr demo_base)]\<rparr>"]
  by (simp add: request_catch demo_defs)

text \<open>
  Where the claim as first stated fails, each time with budget 1. A transport that
  resolves with a response of status 401 is a success: the body is returned after one
  dispatch and nothing is retried. A transport that rejects with status 401, under an
  auth hook that throws on the retry, is dispatched to once: the retry ends in the auth
  step, and what surfaces is the mapping of the auth hook's error. And a transport that
  rejects with \<^verbatim>\<open>undefined\<close> ends the call in a \<^verbatim>\<open>TypeError\<close>, with no retry and
  no call of the mapper.
\<close>

theorem request_failure_handling_counterexample:
  "request demo ''GET'' ''/x'' None None 1 (start [Inr denied_response]) =
     (Inr (Body ''denied''),
      \<lparr>world = [],
       calls = [Call_applyAuth demo_base None (Inr demo_base), Call_request demo_get]\<rparr>) \<and>
   request flaky ''GET'' ''/x'' None None 1 (start (0, [Inl (Obj unauthorized), Inr ok_response])) =
     (Inl (Threw (Threw \<lparr>getResponse = \<lparr>payload_message = ''no credential'',
         payload_code = Code_string ''UPSTREAM_ERROR'',
         payload_details = None\<rparr>, getStatus = 502\<rparr>)),
      \<lparr>world = (2, [Inr ok_response]),
       calls = [Call_applyAuth demo_base None (Inr demo_base), Call_request demo_get,
                Call_applyAuth demo_base None
                  (Inl (Obj \<lparr>err_message = Some ''no credential'', err_response = None\<rparr>)),
                Call_mapAndThrowError
                  (Obj \<lparr>err_message = Some ''no credential'', err_response = None\<rparr>)]\<rparr>) \<and>
   request demo ''GET'' ''/x'' None None 1 (start [Inl Nullish, Inr ok_response]) =
     (Inl TypeError,
      \<lparr>world = [Inr ok_response],
       calls = [Call_applyAuth demo_base None (Inr demo_base), Call_request demo_get]\<rparr>)"
  by (simp add: request_catch demo_defs)

text \<open>
  C6. When the auth hook returns and the transport resolves with a response, each of the
  five verb methods, in both copies of the template, returns the whole response if the
  options ask for the full response, and the body of the response if the options ask for
  the data, leave the mode unset, or are absent.
\<close>

theorem verb_response_mode:
  assumes "do_applyAuth this (buildBaseConfig (getDefaultHeaders this) options)
             (Option.bind options opt_context) s = (Inr withAuth, sa)"
    and "do_request this (withAuth\<lparr>cfg_method := Some (verb_method v), cfg_url := Some url,
             cfg_data := verb_body v body\<rparr>) sa = (Inr resp, sf)"
  shows "call_verb v this url body options s =
           (Inr (if Option.bind options opt_responseMode = Some ResponseMode_full
                 then Full resp else Body (resp_data resp)), sf) \<and>
         call_verb_plain v this url body options s =
           (Inr (if Option.bind options opt_responseMode = Some ResponseMode_full
                 then Full resp else Body (resp_data resp)), sf)"
  using attempt_success [OF assms]
  by (simp add: call_verb_request call_verb_plain_request request_catch request_plain_catch)

theorem verb_response_mode_witness:
  "get demo ''/x'' (Some full_mode) (start [Inr ok_response]) =
     (Inr (Full ok_response),
      \<lparr>world = [], calls = [Call_applyAuth demo_base None (Inr demo_base),
                            Call_request demo_get]\<rparr>) \<and>
   get_plain demo ''/x'' (Some full_mode) (start [Inr ok_response]) =
     (Inr (Full ok_response),
      \<lparr>world = [], calls = [Call_applyAuth demo_base None (Inr demo_base),
                            Call_request demo_get]\<rparr>) \<and>
   post demo ''/x'' (Some ''ping'') None (start [Inr ok_response]) =
     (Inr (Body ''pong''),
      \<lparr>world = [], calls = [Call_applyAuth demo_base None (Inr demo_base),
                            Call_request demo_post]\<rparr>) \<and>
   post_plain demo ''/x'' (Some ''ping'') None (start [Inr ok_response]) =
     (Inr (Body ''pong''),
      \<lparr>world = [], calls = [Call_applyAuth demo_base None (Inr demo_base),
                            Call_request demo_post]\<rparr>)"
  using verb_response_mode [where this = demo and v = GET and url = "''/x''"
      and options = "Some full_mode" and s = "start [Inr ok_response]" and body = None
      and withAuth = demo_base and resp = ok_response
      and sa = "\<lparr>world = [Inr ok_response],
                  calls = [Call_applyAuth demo_base None (Inr demo_base)]\<rparr>"
      and sf = "\<lparr>world = [],
                  calls = [Call_applyAuth demo_base None (Inr demo_base),
                           Call_request demo_get]\<rparr>"]
    verb_response_mode [where this = demo and v = POST and url = "''/x''"
      and options = None and s = "start [Inr ok_response]" and body = "Some ''ping''"
      and withAuth = demo_base and resp = ok_response
      and sa = "\<lparr>world = [Inr ok_response],
                  calls = [Call_applyAuth demo_base None (Inr demo_base)]\<rparr>"
      and sf = "\<lparr>world = [],
                  calls = [Call_applyAuth demo_base None (Inr demo_base),
                           Call_request demo_post]\<rparr>"]
  by (simp add: demo_defs)

text \<open>
  C7. In every call of the request routine, in both copies of the template, the calls are
  staged: each call of the auth hook receives a configuration with no method, no URL and
  no body, and each dispatch comes right after a call of the auth hook that returned, with
  that hook's result to which the method, the URL and the body of the call have been
  added. So every configuration the auth hook sees has none of the three, and every
  configuration dispatched has all three as the caller gave them.
\<close>

theorem request_staging:
  "(request this meth url body options n s = (r, sf) \<or>
    request_plain this meth url body options s = (r, sf)) \<longrightarrow>
     staged meth url body (new_calls s sf) \<and>
     (\<forall>ev \<in> set (new_calls s sf).
        (\<forall>c x a. ev = Call_applyAuth c x a \<longrightarrow>
           cfg_method c = None \<and> cfg_url c = None \<and> cfg_data c = None) \<and>
        (\<forall>c. ev = Call_request c \<longrightarrow>
           cfg_method c = Some meth \<and> cfg_url c = Some url \<and> cfg_data c = body))"
proof
  assume "request this meth url body options n s = (r, sf) \<or>
    request_plain this meth url body options s = (r, sf)"
  then have "segment meth url body (new_calls s sf)"
    by (auto intro: request_new_calls(2) request_plain_new_calls)
  then have st: "staged meth url body (new_calls s sf)"
    by (rule segment_staged)
  show "staged meth url body (new_calls s sf) \<and>
     (\<forall>ev \<in> set (new_calls s sf).
        (\<forall>c x a. ev = Call_applyAuth c x a \<longrightarrow>
           cfg_method c = None \<and> cfg_url c = None \<and> cfg_data c = None) \<and>
        (\<forall>c. ev = Call_request c \<longrightarrow>
           cfg_method c = Some meth \<and> cfg_url c = Some url \<and> cfg_data c = body))"
    using st staged_auth [OF st] staged_dispatch [OF st]
    by (auto simp: unaddressed_def)
qed

theorem request_staging_witness:
  "request demo ''POST'' ''/x'' (Some ''ping'') None 1
       (start [Inl (Obj unauthorized), Inr ok_response]) =
     (Inr (Body ''pong''),
      \<lparr>world = [],
       calls = [Call_applyAuth demo_base None (Inr demo_base), Call_request demo_post,
                Call_applyAuth demo_base None (Inr demo_base), Call_request demo_post]\<rparr>) \<and>
   staged ''POST'' ''/x'' (Some ''ping'')
     [Call_applyAuth demo_base None (Inr demo_base), Call_request demo_post,
      Call_applyAuth demo_base None (Inr demo_base), Call_request demo_post] \<and>
   cfg_method demo_base = None \<and> cfg_url demo_base = None \<and> cfg_data demo_base = None \<and>
   cfg_method demo_post = Some ''POST'' \<and> cfg_url demo_post = Some ''/x'' \<and>
   cfg_data demo_post = Some ''ping''"
  using request_staging [where this = demo and meth = "''POST''" and url = "''/x''"
      and body = "Some ''ping''" and options = None and n = 1
      and s = "start [Inl (Obj unauthorized), Inr ok_response]" and r = "Inr (Body ''pong'')"
      and sf = "\<lparr>world = [],
        calls = [Call_applyAuth demo_base None (Inr demo_base), Call_request demo_post,
                 Call_applyAuth demo_base None (Inr demo_base), Call_request demo_post]\<rparr>"]
  by (simp add: request_catch demo_defs)

text \<open>
  C9. With a retry budget of 0 the two copies of the request routine agree whenever the
  attempt does not fail with \<^verbatim>\<open>undefined\<close> or \<^verbatim>\<open>null\<close>: they return the same
  result and leave the same state, so they make the same calls. When the auth hook or the
  transport rejects with \<^verbatim>\<open>undefined\<close> or \<^verbatim>\<open>null\<close> they differ: the copy with the
  retry raises a \<^verbatim>\<open>TypeError\<close> from its \<^verbatim>\<open>catch\<close> block and does not call the
  error mapper, and the copy without it calls the error mapper with the captured value
  and raises what the mapper throws.
\<close>

theorem request_budget_0:
  "(fst (attempt this meth url body options s) \<noteq> Inl Nullish \<longrightarrow>
      request this meth url body options 0 s = request_plain this meth url body options s) \<and>
   (attempt this meth url body options s = (Inl Nullish, s') \<longrightarrow>
      request this meth url body options 0 s = (Inl TypeError, s') \<and>
      request_plain this meth url body options s =
        (Inl (Threw (mapAndThrowError this Nullish)),
         \<lparr>world = world s', calls = calls s' @ [Call_mapAndThrowError Nullish]\<rparr>))"
  by (simp add: request_zero_plain request_type_error request_plain_raises)

theorem request_budget_0_witness:
  "attempt tolerant ''GET'' ''/x'' None None (start [Inl Nullish]) =
     (Inl Nullish,
      \<lparr>world = [],
       calls = [Call_applyAuth demo_base None (Inr demo_base), Call_request demo_get]\<rparr>) \<and>
   request tolerant ''GET'' ''/x'' None None 0 (start [Inl Nullish]) =
     (Inl TypeError,
      \<lparr>world = [],
       calls = [Call_applyAuth demo_base None (Inr demo_base), Call_request demo_get]\<rparr>) \<and>
   request_plain tolerant ''GET'' ''/x'' None None (start [Inl Nullish]) =
     (Inl (Threw ''nothing was thrown''),
      \<lparr>world = [],
       calls = [Call_applyAuth demo_base None (Inr demo_base), Call_request demo_get,
                Call_mapAndThrowError Nullish]\<rparr>) \<and>
   request tolerant ''GET'' ''/x'' None None 0 (start [Inl (Obj network_timeout)]) =
     (Inl (Threw ''network timeout''),
      \<lparr>world = [],
       calls = [Call_applyAuth demo_base None (Inr demo_base), Call_request demo_get,
                Call_mapAndThrowError (Obj network_timeout)]\<rparr>) \<and>
   request_plain tolerant ''GET'' ''/x'' None None (start [Inl (Obj network_timeout)]) =
     (Inl (Threw ''network timeout''),
      \<lparr>world = [],
       calls = [Call_applyAuth demo_base None (Inr demo_base), Call_request demo_get,
                Call_mapAndThrowError (Obj network_timeout)]\<rparr>)"
  using request_budget_0 [where this = tolerant and meth = "''GET''" and url = "''/x''"
      and body = None and options = None and s = "start [Inl Nullish]"
      and s' = "\<lparr>world = [],
        calls = [Call_applyAuth demo_base None (Inr demo_base), Call_request demo_get]\<rparr>"]
    request_budget_0 [where this = tolerant and meth = "''GET''" and url = "''/x''"
      and body = None and options = None and s = "start [Inl (Obj network_timeout)]"]
  by (simp add: request_catch request_plain_catch tolerant_def network_timeout_def demo_defs)

text \<open>
  C10. Each of the five verb methods of the template with the retry is the request
  routine with budget 0. So when its attempt fails with an error object, of status 401 or
  any other, the verb method calls the error mapper with that error and raises what the
  mapper throws, and it never dispatches more than once; and the routine itself retries
  nothing unless its budget is positive: with a budget of 0 or less it is the routine with
  budget 0, which is the routine of the copy without the retry whenever the attempt does
  not fail with \<^verbatim>\<open>undefined\<close> or \<^verbatim>\<open>null\<close>.
\<close>

theorem verbs_pass_no_budget:
  "call_verb v this url body options s =
     request this (verb_method v) url (verb_body v body) options 0 s \<and>
   (attempt this (verb_method v) url (verb_body v body) options s = (Inl (Obj e), s') \<longrightarrow>
      call_verb v this url body options s =
        (Inl (Threw (mapAndThrowError this (Obj e))),
         \<lparr>world = world s', calls = calls s' @ [Call_mapAndThrowError (Obj e)]\<rparr>)) \<and>
   length (filter is_dispatch (new_calls s (snd (call_verb v this url body options s)))) \<le> 1 \<and>
   (n \<le> 0 \<longrightarrow>
      request this meth url body options n s = request this meth url body options 0 s \<and>
      (fst (attempt this meth url body options s) \<noteq> Inl Nullish \<longrightarrow>
         request this meth url body options n s = request_plain this meth url body options s))"
proof (intro conjI impI)
  show "call_verb v this url body options s =
     request this (verb_method v) url (verb_body v body) options 0 s"
    by (rule call_verb_request)
next
  assume "attempt this (verb_method v) url (verb_body v body) options s = (Inl (Obj e), s')"
  then show "call_verb v this url body options s =
        (Inl (Threw (mapAndThrowError this (Obj e))),
         \<lparr>world = world s', calls = calls s' @ [Call_mapAndThrowError (Obj e)]\<rparr>)"
    by (simp add: call_verb_request request_raises)
next
  obtain r sf where "request this (verb_method v) url (verb_body v body) options 0 s = (r, sf)"
    by (cases "request this (verb_method v) url (verb_body v body) options 0 s")
  then show
    "length (filter is_dispatch (new_calls s (snd (call_verb v this url body options s)))) \<le> 1"
    using request_new_calls(3) [of this "verb_method v" url "verb_body v body" options 0 s r sf]
    by (simp add: call_verb_request)
next
  assume "n \<le> 0"
  then show "request this meth url body options n s = request this meth url body options 0 s"
    by (rule request_nonpositive)
next
  assume "n \<le> 0" and "fst (attempt this meth url body options s) \<noteq> Inl Nullish"
  then show
    "request this meth url body options n s = request_plain this meth url body options s"
    by (simp add: request_nonpositive [of n] request_zero_plain)
qed

theorem verbs_pass_no_budget_witness:
  "attempt demo ''GET'' ''/x'' None None (start [Inl (Obj unauthorized), Inr ok_response]) =
     (Inl (Obj unauthorized),
      \<lparr>world = [Inr ok_response],
       calls = [Call_applyAuth demo_base None (Inr demo_base), Call_request demo_get]\<rparr>) \<and>
   status_of unauthorized = Some 401 \<and>
   get demo ''/x'' None (start [Inl (Obj unauthorized), Inr ok_response]) =
     (Inl (Threw (RestTemplateService_mapAndThrowError (Obj unauthorized))),
      \<lparr>world = [Inr ok_response],
       calls = [Call_applyAuth demo_base None (Inr demo_base), Call_request demo_get,
                Call_mapAndThrowError (Obj unauthorized)]\<rparr>) \<and>
   request demo ''GET'' ''/x'' None None (- 1) (start [Inl (Obj unauthorized), Inr ok_response]) =
     request_plain demo ''GET'' ''/x'' None None (start [Inl (Obj unauthorized), Inr ok_response])"
  using verbs_pass_no_budget [where this = demo and v = GET and url = "''/x''" and body = None
      and options = None and s = "start [Inl (Obj unauthorized), Inr ok_response]"
      and e = unauthorized and n = "- 1" and meth = "''GET''"
      and s' = "\<lparr>world = [Inr ok_response],
        calls = [Call_applyAuth demo_base None (Inr demo_base), Call_request demo_get]\<rparr>"]
  by (simp add: get_def request_catch request_plain_catch demo_defs)

end
